theory Spec2Isabelle
  imports Complex_Main
begin

section \<open>Bird-strike warning core: risk scoring, intent prediction, deterrent playback\<close>

text \<open>
  The development embeds the decision core of
  \<^verbatim>\<open>backend/bird_communication_system.py\<close> (class
  \<^verbatim>\<open>AdvancedBirdCommunicationAnalyzer\<close>) and of
  \<^verbatim>\<open>backend/strategic_response.py\<close> (classes
  \<^verbatim>\<open>PredatorSoundLibrary\<close>, \<^verbatim>\<open>AIDecisionEngine\<close>,
  \<^verbatim>\<open>StrategicResponseSystem\<close>).

  Conventions of the embedding:
  \<^item> a Python \<^verbatim>\<open>float\<close> is a \<^typ>\<open>real\<close>: the arithmetic is exact, so rounding of
    IEEE doubles is not part of the model;
  \<^item> a Python \<^verbatim>\<open>dict\<close> with a fixed set of keys is a record; a key that a caller may
    leave out is a field of option type, \<open>None\<close> meaning that the key is absent;
  \<^item> a raised exception is a value \<open>Inl e\<close> of a sum type, a normal return is \<open>Inr v\<close>;
  \<^item> strings are \<^typ>\<open>string\<close>.
\<close>

datatype py_error = KeyError string | IndexError | ZeroDivisionError

subsection \<open>The species catalogue\<close>

record species_data =
  common_name :: string
  risk :: real
  flock_behavior :: string
  territorial_calls :: "string list"
  alarm_patterns :: "string list"
  flight_patterns :: string

text \<open>The dictionary \<^verbatim>\<open>self.HIGH_RISK_SPECIES\<close>, in the order of the source.\<close>

definition HIGH_RISK_SPECIES :: "(string \<times> species_data) list" where
  "HIGH_RISK_SPECIES =
    [(''Corvus splendens'',
       \<lparr>common_name = ''House Crow'', risk = 0.9, flock_behavior = ''highly_social'',
        territorial_calls = [''caw'', ''rattle'', ''click''],
        alarm_patterns = [''rapid_succession'', ''pitch_variation''],
        flight_patterns = ''erratic_when_alarmed''\<rparr>),
     (''Corvus macrorhynchos'',
       \<lparr>common_name = ''Large-billed Crow'', risk = 0.8, flock_behavior = ''family_groups'',
        territorial_calls = [''deep_caw'', ''grunt'', ''whistle''],
        alarm_patterns = [''descending_pitch'', ''repeated_calls''],
        flight_patterns = ''coordinated_group_movement''\<rparr>),
     (''Haliaeetus leucogaster'',
       \<lparr>common_name = ''White-bellied Sea Eagle'', risk = 0.95, flock_behavior = ''solitary_pairs'',
        territorial_calls = [''harsh_bark'', ''whistle'', ''scream''],
        alarm_patterns = [''extended_calls'', ''circling_behavior''],
        flight_patterns = ''soaring_thermal_riding''\<rparr>),
     (''Acridotheres javanicus'',
       \<lparr>common_name = ''Javan Myna'', risk = 0.7, flock_behavior = ''large_flocks'',
        territorial_calls = [''chatter'', ''whistle'', ''click''],
        alarm_patterns = [''chorus_calling'', ''synchronized_movement''],
        flight_patterns = ''dense_group_formation''\<rparr>)]"

subsection \<open>Communication patterns\<close>

text \<open>
  The \<^verbatim>\<open>patterns\<close> dictionary of \<^verbatim>\<open>analyze_communication_patterns\<close>. The classifier
  always fills the seven keys; the consumers index the dictionary with \<^verbatim>\<open>[...]\<close>, which
  raises \<^verbatim>\<open>KeyError\<close> on a dictionary that lacks the key, so every field is optional.
\<close>

record communication_patterns =
  call_type :: "string option"
  emotional_state :: "string option"
  behavioral_context :: "string option"
  urgency_level :: "string option"
  flock_communication :: "bool option"
  territorial_behavior :: "bool option"
  alarm_signal :: "bool option"

text \<open>Indexing \<^verbatim>\<open>d[key]\<close>: the value, or \<^verbatim>\<open>KeyError(key)\<close>.\<close>

definition getitem :: "string \<Rightarrow> 'a option \<Rightarrow> py_error + 'a" where
  "getitem key field = (case field of None \<Rightarrow> Inl (KeyError key) | Some v \<Rightarrow> Inr v)"

subsection \<open>Alert level and recommended action\<close>

text \<open>
  The \<^verbatim>\<open>if risk_score > 0.8: ... elif ... else\<close> chain of \<^verbatim>\<open>analyze_audio_with_ai\<close>,
  returning the pair \<^verbatim>\<open>(alert_level, action)\<close>.
\<close>

definition alert_level_and_action :: "real \<Rightarrow> string \<times> string" where
  "alert_level_and_action risk_score =
     (if risk_score > 0.8 then (''CRITICAL'', ''IMMEDIATE_RUNWAY_CLOSURE'')
      else if risk_score > 0.6 then (''HIGH'', ''DELAY_TAKEOFF'')
      else if risk_score > 0.4 then (''MEDIUM'', ''INCREASE_MONITORING'')
      else (''LOW'', ''CONTINUE_NORMAL''))"

subsection \<open>The communication-pattern classifier\<close>

text \<open>
  The acoustic features as the classifier reads them. The arrays of the feature dictionary
  enter only through one number each: \<^verbatim>\<open>np.mean(audio_features['spectral_centroid'])\<close>,
  \<^verbatim>\<open>audio_features.get('tempo', 0)\<close> and \<^verbatim>\<open>np.var(audio_features['zero_crossing_rate'])\<close>.
  A field is \<open>None\<close> when the key is absent; \<open>mfcc\<close> is indexed by the classifier
  but its mean is never used, so only its presence is kept.
\<close>

record audio_features =
  mfcc :: "unit option"
  spectral_centroid :: "real option"
  tempo :: "real option"
  zero_crossing_rate :: "real option"

record species_info =
  scientific :: "string option"
  common :: "string option"

definition default_patterns :: communication_patterns where
  "default_patterns =
     \<lparr>call_type = Some ''unknown'', emotional_state = Some ''neutral'',
      behavioral_context = Some ''normal'', urgency_level = Some ''low'',
      flock_communication = Some False, territorial_behavior = Some False,
      alarm_signal = Some False\<rparr>"

text \<open>
  \<^verbatim>\<open>self.HIGH_RISK_SPECIES.get(species_info.get('scientific', ''), {}).get('alarm_patterns', [])\<close>
\<close>

definition alarm_patterns_of :: "species_info \<Rightarrow> string list" where
  "alarm_patterns_of si =
     (case map_of HIGH_RISK_SPECIES (case scientific si of None \<Rightarrow> [] | Some n \<Rightarrow> n) of
        None \<Rightarrow> []
      | Some d \<Rightarrow> alarm_patterns d)"

text \<open>
  The block under \<^verbatim>\<open>if species_info:\<close>. A dictionary is true when it has a key. The two
  rules run one after the other, each assigning \<^verbatim>\<open>behavioral_context\<close> and
  \<^verbatim>\<open>urgency_level\<close>.
\<close>

definition species_specific :: "species_info option \<Rightarrow> real \<Rightarrow> real \<Rightarrow>
    communication_patterns \<Rightarrow> communication_patterns" where
  "species_specific species_info tempo_v zcr_variance patterns =
     (case species_info of
        None \<Rightarrow> patterns
      | Some si \<Rightarrow>
          if scientific si = None \<and> common si = None then patterns
          else
            let alarm_pats = alarm_patterns_of si;
                p1 = (if ''rapid_succession'' \<in> set alarm_pats \<and> tempo_v > 180
                      then patterns\<lparr>behavioral_context := Some ''immediate_threat_response'',
                                    urgency_level := Some ''critical''\<rparr>
                      else patterns);
                p2 = (if ''pitch_variation'' \<in> set alarm_pats \<and> zcr_variance > 0.015
                      then p1\<lparr>behavioral_context := Some ''predator_warning'',
                              urgency_level := Some ''high''\<rparr>
                      else p1)
            in p2)"

text \<open>
  \<^verbatim>\<open>analyze_communication_patterns\<close>. The body runs under \<^verbatim>\<open>try\<close>; the handler returns
  \<^verbatim>\<open>patterns\<close> as it stands when the exception is raised, so a missing key returns the
  dictionary with the assignments made so far. An empty feature dictionary is false, as
  \<^verbatim>\<open>None\<close> is.
\<close>

definition analyze_communication_patterns ::
    "audio_features option \<Rightarrow> species_info option \<Rightarrow> communication_patterns" where
  "analyze_communication_patterns features species_info =
     (case features of
        None \<Rightarrow> default_patterns
      | Some af \<Rightarrow>
          if mfcc af = None \<and> spectral_centroid af = None \<and> tempo af = None
             \<and> zero_crossing_rate af = None then default_patterns
          else if mfcc af = None then default_patterns
          else
            (case spectral_centroid af of
               None \<Rightarrow> default_patterns
             | Some spectral_centroid_mean \<Rightarrow>
                 let p1 = (if spectral_centroid_mean > 3000
                           then default_patterns\<lparr>call_type := Some ''high_frequency_alert'',
                                                 urgency_level := Some ''high''\<rparr>
                           else if spectral_centroid_mean > 1500
                           then default_patterns\<lparr>call_type := Some ''territorial_call'',
                                                 territorial_behavior := Some True\<rparr>
                           else default_patterns\<lparr>call_type := Some ''contact_call''\<rparr>);
                     tempo_v = (case tempo af of None \<Rightarrow> 0 | Some t \<Rightarrow> t);
                     p2 = (if tempo_v > 150
                           then p1\<lparr>flock_communication := Some True,
                                   behavioral_context := Some ''group_coordination''\<rparr>
                           else p1)
                 in (case zero_crossing_rate af of
                       None \<Rightarrow> p2
                     | Some zcr_variance \<Rightarrow>
                         let p3 = (if zcr_variance > 0.01
                                   then p2\<lparr>alarm_signal := Some True,
                                           emotional_state := Some ''alarmed'',
                                           urgency_level := Some ''high''\<rparr>
                                   else p2)
                         in species_specific species_info tempo_v zcr_variance p3)))"

text \<open>
  The order of the urgency levels, \<open>low < medium < high < critical\<close>, as a rank; a string
  that is no urgency level has rank 0.
\<close>

definition urgency_rank :: "string \<Rightarrow> nat" where
  "urgency_rank u =
     (if u = ''critical'' then 3 else if u = ''high'' then 2
      else if u = ''medium'' then 1 else 0)"

subsection \<open>The behavioural-intent predictor\<close>

text \<open>
  The result dictionary of \<^verbatim>\<open>predict_behavioral_intent\<close>. The risk scorer reads
  \<^verbatim>\<open>primary_intent\<close> and \<^verbatim>\<open>confidence\<close> with \<^verbatim>\<open>.get\<close> and a default, so the two
  are optional. \<^verbatim>\<open>all_scores\<close> is a dictionary; Python keeps the insertion order of
  its keys, which the choice of the primary intent depends on, so it is an association
  list.
\<close>

record behavioral_intent =
  primary_intent :: "string option"
  confidence :: "real option"
  all_scores :: "(string \<times> real) list"

definition initial_intent_scores :: "(string \<times> real) list" where
  "initial_intent_scores =
     [(''landing_approach'', 0), (''territory_defense'', 0), (''flock_gathering'', 0),
      (''predator_avoidance'', 0), (''normal_flight'', 0)]"

text \<open>\<^verbatim>\<open>d[key] += v\<close> and \<^verbatim>\<open>d[key] = v\<close> on a key the dictionary has.\<close>

definition add_score :: "string \<Rightarrow> real \<Rightarrow> (string \<times> real) list \<Rightarrow> (string \<times> real) list" where
  "add_score key v scores = map (\<lambda>(k, x). if k = key then (k, x + v) else (k, x)) scores"

definition set_score :: "string \<Rightarrow> real \<Rightarrow> (string \<times> real) list \<Rightarrow> (string \<times> real) list" where
  "set_score key v scores = map (\<lambda>(k, x). if k = key then (k, v) else (k, x)) scores"

text \<open>\<^verbatim>\<open>p.get(key, False)\<close> on a history entry.\<close>

definition get_flag :: "bool option \<Rightarrow> bool" where
  "get_flag field = (case field of None \<Rightarrow> False | Some b \<Rightarrow> b)"

text \<open>\<^verbatim>\<open>xs[-n:]\<close>: the last \<open>n\<close> elements, all of them when there are fewer.\<close>

definition last_n :: "nat \<Rightarrow> 'a list \<Rightarrow> 'a list" where
  "last_n n xs = drop (length xs - n) xs"

text \<open>
  The additive part of \<^verbatim>\<open>predict_behavioral_intent\<close>: the scores before they are
  normalised, for the three flags of the current pattern and the history.
\<close>

definition accumulate_scores ::
    "bool \<Rightarrow> bool \<Rightarrow> bool \<Rightarrow> communication_patterns list \<Rightarrow> (string \<times> real) list" where
  "accumulate_scores alarm territorial flock historical_data =
     (let s1 = (if alarm then add_score ''predator_avoidance'' 0.4 initial_intent_scores
                else initial_intent_scores);
          s2 = (if territorial then add_score ''territory_defense'' 0.3 s1 else s1);
          s3 = (if flock then add_score ''flock_gathering'' 0.4 s2 else s2)
      in if length historical_data > 0
         then
           let recent_patterns = last_n 5 historical_data;
               alarm_frequency = length (filter (\<lambda>p. get_flag (alarm_signal p)) recent_patterns);
               s4 = (if alarm_frequency > 2 then add_score ''predator_avoidance'' 0.3 s3 else s3);
               territorial_frequency =
                 length (filter (\<lambda>p. get_flag (territorial_behavior p)) recent_patterns);
               s5 = (if territorial_frequency > 1 then add_score ''territory_defense'' 0.2 s4
                     else s4)
           in s5
         else s3)"

text \<open>
  \<^verbatim>\<open>total_score = sum(intent_scores.values())\<close>, then the division of every score by
  the total, or \<^verbatim>\<open>intent_scores['normal_flight'] = 1.0\<close>.
\<close>

definition normalize_scores :: "(string \<times> real) list \<Rightarrow> (string \<times> real) list" where
  "normalize_scores scores =
     (let total_score = sum_list (map snd scores)
      in if total_score > 0 then map (\<lambda>(k, x). (k, x / total_score)) scores
         else set_score ''normal_flight'' 1.0 scores)"

text \<open>
  \<^verbatim>\<open>max(intent_scores, key=intent_scores.get)\<close>: Python's \<^verbatim>\<open>max\<close> walks the keys in
  order and replaces the running best only by a strictly greater value, so the first
  maximum wins. On an empty dictionary it raises \<^verbatim>\<open>ValueError\<close>.
\<close>

fun max_from :: "string \<times> real \<Rightarrow> (string \<times> real) list \<Rightarrow> string \<times> real" where
  "max_from best [] = best"
| "max_from best (kv # rest) = max_from (if snd kv > snd best then kv else best) rest"

datatype value_error = ValueError

definition max_key :: "(string \<times> real) list \<Rightarrow> value_error + string \<times> real" where
  "max_key scores = (case scores of [] \<Rightarrow> Inl ValueError | kv # rest \<Rightarrow> Inr (max_from kv rest))"

text \<open>
  \<^verbatim>\<open>predict_behavioral_intent\<close>. The three flags are indexed with \<^verbatim>\<open>[...]\<close> before
  anything else; any exception of the body is caught and answered with the fixed
  dictionary of the handler.
\<close>

definition unknown_intent :: behavioral_intent where
  "unknown_intent = \<lparr>primary_intent = Some ''unknown'', confidence = Some 0.0, all_scores = []\<rparr>"

definition predict_behavioral_intent ::
    "communication_patterns \<Rightarrow> communication_patterns list \<Rightarrow> behavioral_intent" where
  "predict_behavioral_intent patterns historical_data =
     (case getitem ''alarm_signal'' (alarm_signal patterns) of
        Inl e \<Rightarrow> unknown_intent
      | Inr alarm \<Rightarrow>
     (case getitem ''territorial_behavior'' (territorial_behavior patterns) of
        Inl e \<Rightarrow> unknown_intent
      | Inr territorial \<Rightarrow>
     (case getitem ''flock_communication'' (flock_communication patterns) of
        Inl e \<Rightarrow> unknown_intent
      | Inr flock \<Rightarrow>
          let intent_scores =
                normalize_scores (accumulate_scores alarm territorial flock historical_data)
          in (case max_key intent_scores of
                Inl e \<Rightarrow> unknown_intent
              | Inr (primary, conf) \<Rightarrow>
                  \<lparr>primary_intent = Some primary, confidence = Some conf,
                   all_scores = intent_scores\<rparr>))))"

text \<open>The closed set of intents, in the order of their declaration.\<close>

definition intent_order :: "string list" where
  "intent_order = [''landing_approach'', ''territory_defense'', ''flock_gathering'',
                   ''predator_avoidance'', ''normal_flight'']"

text \<open>
  The first entry of an association list whose value no other value exceeds: the first
  maximum in the order of the list.
\<close>

definition first_maximum :: "(string \<times> real) list \<Rightarrow> (string \<times> real) option" where
  "first_maximum scores = find (\<lambda>kv. list_all (\<lambda>kv'. snd kv' \<le> snd kv) scores) scores"

subsection \<open>The risk score\<close>

definition intent_multipliers :: "(string \<times> real) list" where
  "intent_multipliers =
     [(''landing_approach'', 1.5), (''territory_defense'', 1.3), (''flock_gathering'', 1.2),
      (''predator_avoidance'', 0.8), (''normal_flight'', 1.0)]"

text \<open>\<^verbatim>\<open>self.HIGH_RISK_SPECIES.get(species, {}).get('risk', 0.3)\<close>\<close>

definition base_risk_of :: "string \<Rightarrow> real" where
  "base_risk_of species =
     (case map_of HIGH_RISK_SPECIES species of None \<Rightarrow> 0.3 | Some d \<Rightarrow> risk d)"

text \<open>
  \<^verbatim>\<open>calculate_enhanced_risk_score\<close>. The function has no handler of its own: a pattern
  dictionary without one of the three keys it indexes raises \<^verbatim>\<open>KeyError\<close>. The result is
  \<^verbatim>\<open>min(risk_score, 1.0)\<close>; there is no lower cap.
\<close>

definition calculate_enhanced_risk_score ::
    "string \<Rightarrow> real \<Rightarrow> communication_patterns \<Rightarrow> behavioral_intent \<Rightarrow> py_error + real" where
  "calculate_enhanced_risk_score species conf patterns intent =
     (let r0 = base_risk_of species * conf
      in case getitem ''alarm_signal'' (alarm_signal patterns) of
           Inl e \<Rightarrow> Inl e
         | Inr alarm \<Rightarrow>
             let r1 = (if alarm then r0 + 0.2 else r0)
             in (case getitem ''urgency_level'' (urgency_level patterns) of
                   Inl e \<Rightarrow> Inl e
                 | Inr urgency \<Rightarrow>
                     let r2 = (if urgency = ''critical'' then r1 + 0.3
                               else if urgency = ''high'' then r1 + 0.15 else r1)
                     in (case getitem ''flock_communication'' (flock_communication patterns) of
                           Inl e \<Rightarrow> Inl e
                         | Inr flock \<Rightarrow>
                             let r3 = (if flock then r2 + 0.1 else r2);
                                 primary = (case primary_intent intent of
                                              None \<Rightarrow> ''normal_flight'' | Some i \<Rightarrow> i);
                                 intent_confidence = (case confidence intent of
                                                        None \<Rightarrow> 0.0 | Some c \<Rightarrow> c);
                                 multiplier = (case map_of intent_multipliers primary of
                                                 None \<Rightarrow> 1.0 | Some m \<Rightarrow> m);
                                 r4 = r3 * (1 + (multiplier - 1) * intent_confidence)
                             in Inr (min r4 1.0))))"

subsection \<open>The predator sound library: selection\<close>

text \<open>
  \<^verbatim>\<open>str.lower()\<close> on the ASCII letters, and the substring test \<^verbatim>\<open>sub in s\<close>.
\<close>

definition lower_char :: "char \<Rightarrow> char" where
  "lower_char c =
     (let n = (of_char c :: nat) in if 65 \<le> n \<and> n \<le> 90 then char_of (n + 32) else c)"

definition lower :: "string \<Rightarrow> string" where
  "lower s = map lower_char s"

fun contains :: "string \<Rightarrow> string \<Rightarrow> bool" where
  "contains sub [] = (sub = [])"
| "contains sub (c # cs) = (take (length sub) (c # cs) = sub \<or> contains sub cs)"

text \<open>
  A loaded \<^verbatim>\<open>pygame.mixer.Sound\<close>: its length (\<^verbatim>\<open>get_length()\<close>, here in milliseconds)
  and its volume.
\<close>

record sound =
  sound_length :: nat
  sound_volume :: real

definition predator_mappings :: "(string \<times> string list) list" where
  "predator_mappings =
     [(''corvids'', [''hawk_screech'', ''eagle_cry'', ''falcon_call'']),
      (''passerines'', [''cat_meow'', ''snake_hiss'', ''hawk_screech'']),
      (''raptors'', [''owl_hoot'', ''hawk_screech'']),
      (''waterfowl'', [''fox_bark'', ''coyote_howl'', ''hawk_screech'']),
      (''default'', [''hawk_screech'', ''eagle_cry'', ''owl_hoot''])]"

definition bird_category_of :: "string \<Rightarrow> string" where
  "bird_category_of bird_species =
     (let bird_species_lower = lower bird_species
      in if list_ex (\<lambda>k. contains k bird_species_lower)
              [''crow'', ''raven'', ''magpie'', ''jay''] then ''corvids''
         else if list_ex (\<lambda>k. contains k bird_species_lower)
              [''sparrow'', ''finch'', ''warbler'', ''robin''] then ''passerines''
         else if list_ex (\<lambda>k. contains k bird_species_lower)
              [''hawk'', ''eagle'', ''falcon'', ''kestrel''] then ''raptors''
         else if list_ex (\<lambda>k. contains k bird_species_lower)
              [''duck'', ''goose'', ''swan'', ''gull''] then ''waterfowl''
         else ''default'')"

text \<open>
  \<^verbatim>\<open>get_effective_predator_sound\<close>, over the keys of \<^verbatim>\<open>self.sound_cache\<close> in their
  order. \<^verbatim>\<open>random.choice\<close> takes its index from the argument \<open>pick\<close>. The last line is
  \<^verbatim>\<open>random.choice(available_sounds) if available_sounds else list(self.sound_cache.keys())[0]\<close>:
  indexing an empty list raises \<^verbatim>\<open>IndexError\<close>, and the function has no handler.
\<close>

definition get_effective_predator_sound ::
    "string \<Rightarrow> string \<Rightarrow> nat \<Rightarrow> (string \<times> sound) list \<Rightarrow> py_error + string" where
  "get_effective_predator_sound bird_species bird_behavior pick cache =
     (let cached = map fst cache;
          mapped_sounds = (case map_of predator_mappings (bird_category_of bird_species) of
                             None \<Rightarrow> [''hawk_screech'', ''eagle_cry'', ''owl_hoot'']
                           | Some l \<Rightarrow> l);
          available0 = filter (\<lambda>s. s \<in> set cached) mapped_sounds;
          available1 = (if available0 = [] then cached else available0);
          available_sounds =
            (if contains ''territorial'' (lower bird_behavior)
                \<or> contains ''aggressive'' (lower bird_behavior)
             then
               let aggressive_available =
                     filter (\<lambda>s. s \<in> set [''hawk_screech'', ''eagle_cry'', ''falcon_call''])
                       available1
               in if aggressive_available \<noteq> [] then aggressive_available else available1
             else available1)
      in if available_sounds \<noteq> []
         then Inr (available_sounds ! (pick mod length available_sounds))
         else (case cached of [] \<Rightarrow> Inl IndexError | k # ks \<Rightarrow> Inr k))"

subsection \<open>The predator sound library: playback\<close>

text \<open>
  Playback runs on threads, and \<^verbatim>\<open>stop_predator_sound\<close> waits for one with
  \<^verbatim>\<open>join(timeout=2)\<close>, so the state of the library is modelled together with a clock (in
  milliseconds) and the playback threads that are alive. A thread runs
  \<^verbatim>\<open>while not self._stop_playback_event.is_set(): sound.play(); time.sleep(duration)\<close>:
  between two tests of the event it sleeps for the length of its sound, and
  \<open>thread_wake\<close> is the time at which its current sleep ends. The statements of a call
  take no time; only \<^verbatim>\<open>join\<close> and the pauses between calls do.
\<close>

record playback_thread =
  thread_id :: nat
  thread_sound :: string
  thread_duration :: nat
  thread_wake :: nat

text \<open>
  The three attributes of the communication analyzer that
  \<^verbatim>\<open>update_predator_status\<close> writes.
\<close>

record predator_status =
  is_predator_playing :: bool
  predator_play_start :: "nat option"
  predator_play_duration :: nat

definition update_predator_status :: "bool \<Rightarrow> nat \<Rightarrow> nat \<Rightarrow> predator_status" where
  "update_predator_status is_playing duration now =
     (if is_playing
      then \<lparr>is_predator_playing = True, predator_play_start = Some now,
            predator_play_duration = duration\<rparr>
      else \<lparr>is_predator_playing = False, predator_play_start = None,
            predator_play_duration = 0\<rparr>)"

text \<open>
  \<^verbatim>\<open>PredatorSoundLibrary\<close>: the cache, the handle \<^verbatim>\<open>self._playback_thread\<close> (the id of
  a thread, or \<open>None\<close>), the event \<^verbatim>\<open>self._stop_playback_event\<close>, the analyzer if one is
  set; then the clock, the live playback threads in the order of their start, and the
  number of threads started so far.
\<close>

record sound_library =
  sound_cache :: "(string \<times> sound) list"
  playback_handle :: "nat option"
  stop_playback_event :: bool
  communication_analyzer :: "predator_status option"
  clock :: nat
  live_threads :: "playback_thread list"
  threads_started :: nat

text \<open>
  The time at which a thread sleeps again once the clock has reached \<open>t\<close> with the event
  clear: it has woken, played and slept as often as its sound fits.
\<close>

definition next_wake :: "nat \<Rightarrow> playback_thread \<Rightarrow> nat" where
  "next_wake t th =
     (if t < thread_wake th then thread_wake th
      else if thread_duration th = 0 then t
      else thread_wake th + ((t - thread_wake th) div thread_duration th + 1) * thread_duration th)"

text \<open>
  Time passes up to \<open>t\<close>. The event does not change meanwhile. When it is set, every
  thread whose sleep ends by \<open>t\<close> leaves its loop, and its \<^verbatim>\<open>finally\<close> clause reports
  \<^verbatim>\<open>update_predator_status(False)\<close>; when it is clear, such a thread plays again and
  sleeps.
\<close>

definition advance_to :: "nat \<Rightarrow> sound_library \<Rightarrow> sound_library" where
  "advance_to t s =
     (if stop_playback_event s
      then
        let staying = filter (\<lambda>th. t < thread_wake th) (live_threads s)
        in s\<lparr>clock := t, live_threads := staying,
              communication_analyzer :=
                (if length staying < length (live_threads s)
                 then map_option (\<lambda>_. update_predator_status False 0 t) (communication_analyzer s)
                 else communication_analyzer s)\<rparr>
      else s\<lparr>clock := t,
            live_threads := map (\<lambda>th. th\<lparr>thread_wake := next_wake t th\<rparr>) (live_threads s)\<rparr>)"

definition is_alive :: "nat \<Rightarrow> sound_library \<Rightarrow> bool" where
  "is_alive tid s = list_ex (\<lambda>th. thread_id th = tid) (live_threads s)"

text \<open>
  \<^verbatim>\<open>thread.join(timeout)\<close>: the caller waits until the thread has ended, or for the
  timeout.
\<close>

definition join :: "nat \<Rightarrow> nat \<Rightarrow> sound_library \<Rightarrow> sound_library" where
  "join tid timeout s =
     (case find (\<lambda>th. thread_id th = tid) (live_threads s) of
        None \<Rightarrow> s
      | Some th \<Rightarrow> advance_to (max (clock s) (min (thread_wake th) (clock s + timeout))) s)"

text \<open>
  \<^verbatim>\<open>stop_predator_sound\<close>. \<^verbatim>\<open>pygame.mixer.stop()\<close> silences the mixer and is caught
  when it fails; it changes none of the attributes.
\<close>

definition stop_predator_sound :: "sound_library \<Rightarrow> sound_library" where
  "stop_predator_sound s =
     (let s1 = s\<lparr>stop_playback_event := True\<rparr>;
          s2 = (case playback_handle s1 of
                  None \<Rightarrow> s1
                | Some tid \<Rightarrow> if is_alive tid s1 then join tid 2000 s1 else s1);
          s3 = s2\<lparr>playback_handle := None\<rparr>
      in s3\<lparr>communication_analyzer :=
               map_option (\<lambda>_. update_predator_status False 0 (clock s3))
                 (communication_analyzer s3)\<rparr>)"

text \<open>
  \<^verbatim>\<open>play_predator_sound\<close>, with its result. The new thread reports
  \<^verbatim>\<open>update_predator_status(True, 9999)\<close>, finds the event clear, plays and sleeps.
\<close>

definition play_predator_sound ::
    "string \<Rightarrow> real \<Rightarrow> sound_library \<Rightarrow> bool \<times> sound_library" where
  "play_predator_sound sound_name volume s =
     (let s1 = stop_predator_sound s
      in case map_of (sound_cache s1) sound_name of
           None \<Rightarrow> (False, s1)
         | Some snd0 \<Rightarrow>
             let s2 = s1\<lparr>sound_cache :=
                          map (\<lambda>(k, v). if k = sound_name then (k, v\<lparr>sound_volume := volume\<rparr>)
                                         else (k, v)) (sound_cache s1)\<rparr>;
                 s3 = s2\<lparr>stop_playback_event := False\<rparr>;
                 tid = threads_started s3;
                 th = \<lparr>thread_id = tid, thread_sound = sound_name,
                       thread_duration = sound_length snd0,
                       thread_wake = clock s3 + sound_length snd0\<rparr>
             in (True,
                 s3\<lparr>playback_handle := Some tid,
                    threads_started := tid + 1,
                    live_threads := live_threads s3 @ [th],
                    communication_analyzer :=
                      map_option (\<lambda>_. update_predator_status True 9999 (clock s3))
                        (communication_analyzer s3)\<rparr>))"

text \<open>
  The library after \<^verbatim>\<open>__init__\<close>, with a given cache and analyzer: no thread, the event
  clear.
\<close>

definition new_library :: "(string \<times> sound) list \<Rightarrow> predator_status option \<Rightarrow> sound_library" where
  "new_library cache analyzer =
     \<lparr>sound_cache = cache, playback_handle = None, stop_playback_event = False,
      communication_analyzer = analyzer, clock = 0, live_threads = [], threads_started = 0\<rparr>"

text \<open>
  What a client does to the library: a call of \<^verbatim>\<open>play_predator_sound\<close>, a call of
  \<^verbatim>\<open>stop_predator_sound\<close>, or a pause of some milliseconds before its next call.
\<close>

datatype client_call = Play string real | Stop | Pause nat

fun client_step :: "sound_library \<Rightarrow> client_call \<Rightarrow> sound_library" where
  "client_step s (Play sound_name volume) = snd (play_predator_sound sound_name volume s)"
| "client_step s Stop = stop_predator_sound s"
| "client_step s (Pause d) = advance_to (clock s + d) s"

definition run_calls :: "client_call list \<Rightarrow> sound_library \<Rightarrow> sound_library" where
  "run_calls calls s = foldl client_step s calls"

subsection \<open>The decision engine\<close>

datatype ThreatLevel = LOW | MEDIUM | HIGH | CRITICAL

datatype ActionType = MONITOR | DELAY | REDIRECT | EVACUATE | SOUND_DETERRENT | EMERGENCY_STOP

text \<open>\<^verbatim>\<open>action.action_type.value\<close>\<close>

fun action_value :: "ActionType \<Rightarrow> string" where
  "action_value MONITOR = ''MONITOR''"
| "action_value DELAY = ''DELAY''"
| "action_value REDIRECT = ''REDIRECT''"
| "action_value EVACUATE = ''EVACUATE''"
| "action_value SOUND_DETERRENT = ''SOUND_DETERRENT''"
| "action_value EMERGENCY_STOP = ''EMERGENCY_STOP''"

record StrategicAction =
  action_type :: ActionType
  priority :: int
  description :: string
  estimated_duration :: int
  resources_required :: "string list"
  success_probability :: real
  risk_assessment :: string
  automated :: bool

record NextActionRecommendation =
  timestamp :: string
  situation_analysis :: string
  recommended_actions :: "StrategicAction list"
  risk_factors :: "string list"
  success_metrics :: "(string \<times> real) list"
  confidence_score :: real
  reasoning :: string

text \<open>
  The alert dictionary \<^verbatim>\<open>bird_data\<close>, with the keys the engine reads; it reads each with
  \<^verbatim>\<open>.get\<close> and a default.
\<close>

record bird_data =
  bd_species :: "species_info option"
  bd_risk_score :: "real option"
  bd_alert_level :: "string option"
  bd_communication_analysis :: "communication_patterns option"
  bd_behavioral_prediction :: "behavioral_intent option"

text \<open>\<^verbatim>\<open>bird_data.get('communication_analysis', {}).get(key, False)\<close>\<close>

definition analysis_flag ::
    "(communication_patterns \<Rightarrow> bool option) \<Rightarrow> bird_data \<Rightarrow> bool" where
  "analysis_flag field bd =
     (case bd_communication_analysis bd of None \<Rightarrow> False | Some p \<Rightarrow> get_flag (field p))"

text \<open>\<^verbatim>\<open>bird_data.get('species', {}).get('scientific', 'unknown')\<close>\<close>

definition scientific_of :: "bird_data \<Rightarrow> string" where
  "scientific_of bd =
     (case bd_species bd of
        None \<Rightarrow> ''unknown''
      | Some si \<Rightarrow> (case scientific si of None \<Rightarrow> ''unknown'' | Some n \<Rightarrow> n))"

definition assess_threat_level :: "bird_data \<Rightarrow> ThreatLevel" where
  "assess_threat_level bd =
     (let risk_score = (case bd_risk_score bd of None \<Rightarrow> 0 | Some r \<Rightarrow> r);
          alert_level = (case bd_alert_level bd of None \<Rightarrow> ''LOW'' | Some l \<Rightarrow> l);
          flock_behavior = analysis_flag flock_communication bd
      in if risk_score > 0.8 \<or> alert_level = ''CRITICAL'' then CRITICAL
         else if risk_score > 0.6 \<or> alert_level = ''HIGH'' \<or> flock_behavior then HIGH
         else if risk_score > 0.4 \<or> alert_level = ''MEDIUM'' then MEDIUM
         else LOW)"

definition calculate_urgency_score :: "bird_data \<Rightarrow> real" where
  "calculate_urgency_score bd =
     (let base0 = (case bd_risk_score bd of None \<Rightarrow> 0 | Some r \<Rightarrow> r);
          urgency = (case bd_communication_analysis bd of
                       None \<Rightarrow> ''low''
                     | Some p \<Rightarrow> (case urgency_level p of None \<Rightarrow> ''low'' | Some u \<Rightarrow> u));
          base1 = (if urgency = ''high'' then base0 + 0.2
                   else if urgency = ''medium'' then base0 + 0.1 else base0);
          base2 = (if analysis_flag flock_communication bd then base1 + 0.15 else base1);
          base3 = (if analysis_flag territorial_behavior bd then base2 + 0.1 else base2)
      in min base3 1.0)"

definition identify_complexity_factors :: "bird_data \<Rightarrow> string list" where
  "identify_complexity_factors bd =
     (let f1 = (if analysis_flag flock_communication bd
                then [''Flock coordination detected''] else []);
          f2 = (if analysis_flag territorial_behavior bd
                then f1 @ [''Territorial behavior - birds may return''] else f1);
          f3 = (if analysis_flag alarm_signal bd
                then f2 @ [''Alarm signals - potential for mass movement''] else f2);
          behavioral_intent = (case bd_behavioral_prediction bd of
                                 None \<Rightarrow> []
                               | Some bi \<Rightarrow> (case primary_intent bi of None \<Rightarrow> [] | Some i \<Rightarrow> i))
      in if behavioral_intent = ''territory_defense''
         then f3 @ [''Territory defense - persistent threat'']
         else if behavioral_intent = ''flock_gathering''
         then f3 @ [''Flock gathering - increasing numbers expected'']
         else f3)"

text \<open>
  An entry of \<^verbatim>\<open>self.decision_history\<close>, and the context
  \<^verbatim>\<open>_get_historical_context\<close> builds from the entries of the same species. The
  context's two further keys, \<^verbatim>\<open>most_successful_action\<close> and
  \<^verbatim>\<open>recurrence_pattern\<close>, are read by no computation of the engine and are left out.
\<close>

record incident =
  incident_species :: "string option"
  incident_success_rate :: "real option"

record historical_context =
  similar_incidents :: nat
  average_success_rate :: real

definition get_historical_context :: "incident list \<Rightarrow> bird_data \<Rightarrow> historical_context" where
  "get_historical_context decision_history bd =
     (let species = scientific_of bd;
          similar = filter (\<lambda>i. incident_species i = Some species) decision_history
      in if similar \<noteq> []
         then \<lparr>similar_incidents = length similar,
               average_success_rate =
                 sum_list (map (\<lambda>i. case incident_success_rate i of None \<Rightarrow> 0 | Some r \<Rightarrow> r)
                             similar) / real (length similar)\<rparr>
         else \<lparr>similar_incidents = 0, average_success_rate = 0\<rparr>)"

text \<open>
  The dictionary \<^verbatim>\<open>analyze_situation\<close> returns, without its
  \<^verbatim>\<open>environmental_factors\<close>, which depend on the wall clock only.
\<close>

record situation =
  threat_level :: ThreatLevel
  urgency_score :: real
  complexity_factors :: "string list"
  history_context :: historical_context

definition analyze_situation :: "incident list \<Rightarrow> bird_data \<Rightarrow> situation" where
  "analyze_situation decision_history bd =
     \<lparr>threat_level = assess_threat_level bd,
      urgency_score = calculate_urgency_score bd,
      complexity_factors = identify_complexity_factors bd,
      history_context = get_historical_context decision_history bd\<rparr>"

text \<open>
  \<^verbatim>\<open>_calculate_confidence_score\<close>. The average divides by \<^verbatim>\<open>len(strategies)\<close>, which
  raises \<^verbatim>\<open>ZeroDivisionError\<close> on an empty list.
\<close>

definition calculate_confidence_score ::
    "situation \<Rightarrow> StrategicAction list \<Rightarrow> py_error + real" where
  "calculate_confidence_score analysis strategies =
     (let base_confidence0 = 0.8;
          n_factors = length (complexity_factors analysis);
          confidence_reduction = min (real n_factors * 0.1) 0.3;
          base_confidence = (if similar_incidents (history_context analysis) > 5
                             then base_confidence0 + 0.1 else base_confidence0)
      in if strategies = [] then Inl ZeroDivisionError
         else
           let avg_strategy_success =
                 sum_list (map success_probability strategies) / real (length strategies);
               combined_confidence = (base_confidence + avg_strategy_success) / 2
           in Inr (max 0.0 (min 1.0 (combined_confidence - confidence_reduction))))"

text \<open>
  The four strategy templates, \<^verbatim>\<open>_generate_low_threat_strategies\<close> to
  \<^verbatim>\<open>_generate_critical_threat_strategies\<close>, and their table
  \<^verbatim>\<open>self.strategy_templates\<close>.
\<close>

definition common_of :: "bird_data \<Rightarrow> string" where
  "common_of bd =
     (case bd_species bd of
        None \<Rightarrow> ''Unknown''
      | Some si \<Rightarrow> (case common si of None \<Rightarrow> ''Unknown'' | Some n \<Rightarrow> n))"

definition generate_low_threat_strategies :: "bird_data \<Rightarrow> situation \<Rightarrow> StrategicAction list" where
  "generate_low_threat_strategies bd analysis =
     [\<lparr>action_type = MONITOR, priority = 1,
       description = ''Continue passive monitoring with standard sensors'',
       estimated_duration = 15,
       resources_required = [''audio_sensors'', ''visual_monitoring''],
       success_probability = 0.9,
       risk_assessment = ''Minimal risk - routine monitoring sufficient'',
       automated = True\<rparr>,
      \<lparr>action_type = SOUND_DETERRENT, priority = 2,
       description = ''Gentle sound deterrent if bird approaches critical zones'',
       estimated_duration = 2,
       resources_required = [''speaker_system''],
       success_probability = 0.7,
       risk_assessment = ''Low risk - gentle deterrent should be sufficient'',
       automated = True\<rparr>]"

definition generate_medium_threat_strategies :: "bird_data \<Rightarrow> situation \<Rightarrow> StrategicAction list" where
  "generate_medium_threat_strategies bd analysis =
     (let strategies =
            [\<lparr>action_type = SOUND_DETERRENT, priority = 1,
              description = ''Deploy predator sound deterrent optimized for '' @ common_of bd,
              estimated_duration = 5,
              resources_required = [''speaker_system'', ''predator_sounds''],
              success_probability = 0.8,
              risk_assessment = ''Medium risk - sound deterrent should be effective'',
              automated = True\<rparr>,
             \<lparr>action_type = MONITOR, priority = 2,
              description = ''Enhanced monitoring with increased sensor sensitivity'',
              estimated_duration = 10,
              resources_required = [''audio_sensors'', ''visual_monitoring'', ''radar''],
              success_probability = 0.85,
              risk_assessment = ''Essential for tracking bird response to deterrent'',
              automated = True\<rparr>]
      in if analysis_flag flock_communication bd
         then strategies @
            [\<lparr>action_type = DELAY, priority = 3,
              description = ''Consider brief operational delay if deterrent ineffective'',
              estimated_duration = 3,
              resources_required = [''air_traffic_control''],
              success_probability = 0.95,
              risk_assessment = ''Precautionary delay to prevent flock collision'',
              automated = False\<rparr>]
         else strategies)"

definition generate_high_threat_strategies :: "bird_data \<Rightarrow> situation \<Rightarrow> StrategicAction list" where
  "generate_high_threat_strategies bd analysis =
     [\<lparr>action_type = SOUND_DETERRENT, priority = 1,
       description = ''Immediate intensive predator sound deployment for '' @ common_of bd,
       estimated_duration = 3,
       resources_required = [''speaker_system'', ''predator_sounds''],
       success_probability = 0.75,
       risk_assessment = ''High urgency - immediate deterrent required'',
       automated = True\<rparr>,
      \<lparr>action_type = DELAY, priority = 2,
       description = ''Implement operational delay until threat clears'',
       estimated_duration = 10,
       resources_required = [''air_traffic_control'', ''operations_team''],
       success_probability = 0.9,
       risk_assessment = ''Necessary precaution for high-risk scenario'',
       automated = False\<rparr>,
      \<lparr>action_type = REDIRECT, priority = 3,
       description = ''Prepare alternative routing if delay extends'',
       estimated_duration = 15,
       resources_required = [''air_traffic_control'', ''flight_planning''],
       success_probability = 0.8,
       risk_assessment = ''Contingency plan for extended bird presence'',
       automated = False\<rparr>]"

definition generate_critical_threat_strategies :: "bird_data \<Rightarrow> situation \<Rightarrow> StrategicAction list" where
  "generate_critical_threat_strategies bd analysis =
     [\<lparr>action_type = EMERGENCY_STOP, priority = 1,
       description = ''Immediate emergency stop of all runway operations'',
       estimated_duration = 1,
       resources_required = [''emergency_protocols'', ''all_personnel''],
       success_probability = 0.99,
       risk_assessment = ''Critical - immediate action required'',
       automated = True\<rparr>,
      \<lparr>action_type = SOUND_DETERRENT, priority = 2,
       description = ''Maximum intensity predator sound deployment'',
       estimated_duration = 5,
       resources_required = [''speaker_system'', ''predator_sounds''],
       success_probability = 0.7,
       risk_assessment = ''Emergency deterrent - all available resources'',
       automated = True\<rparr>,
      \<lparr>action_type = EVACUATE, priority = 3,
       description = ''Evacuate aircraft from immediate danger zone'',
       estimated_duration = 20,
       resources_required = [''ground_crew'', ''emergency_vehicles''],
       success_probability = 0.95,
       risk_assessment = ''Essential for preventing catastrophic collision'',
       automated = False\<rparr>]"

fun strategy_templates :: "ThreatLevel \<Rightarrow> bird_data \<Rightarrow> situation \<Rightarrow> StrategicAction list" where
  "strategy_templates LOW = generate_low_threat_strategies"
| "strategy_templates MEDIUM = generate_medium_threat_strategies"
| "strategy_templates HIGH = generate_high_threat_strategies"
| "strategy_templates CRITICAL = generate_critical_threat_strategies"

text \<open>
  \<^verbatim>\<open>sum(s.success_probability for s in strategies) / len(strategies)\<close> on a list
  that is not empty.
\<close>

definition average_success :: "StrategicAction list \<Rightarrow> real" where
  "average_success strategies =
     sum_list (map success_probability strategies) / real (length strategies)"

text \<open>
  The confidence score read off the words of the specification: the clamped value of
  \<open>(0.8 + avg) / 2 - min (0.1 * n) 0.3\<close>, and a bonus of 0.1 on it when the similar
  incidents exceed 5. The bonus is either added under the clamp or after it.
\<close>

definition spec_confidence_inside :: "nat \<Rightarrow> real \<Rightarrow> nat \<Rightarrow> real" where
  "spec_confidence_inside n_factors avg n_similar =
     max 0 (min 1 ((0.8 + avg) / 2 - min (0.1 * real n_factors) 0.3
                   + (if n_similar > 5 then 0.1 else 0)))"

definition spec_confidence_outside :: "nat \<Rightarrow> real \<Rightarrow> nat \<Rightarrow> real" where
  "spec_confidence_outside n_factors avg n_similar =
     max 0 (min 1 ((0.8 + avg) / 2 - min (0.1 * real n_factors) 0.3))
       + (if n_similar > 5 then 0.1 else 0)"

text \<open>
  An entry of \<^verbatim>\<open>self.response_history\<close>. The time stamp of an entry is
  \<^verbatim>\<open>datetime.now().isoformat()\<close>; the model takes it as an argument.
\<close>

record log_entry =
  log_timestamp :: string
  log_action :: string
  log_species :: string
  log_threat_level :: string
  log_success_probability :: real
  log_automated :: bool

text \<open>
  \<^verbatim>\<open>StrategicResponseSystem\<close>: the sound library, the response history, and the lines
  the two handlers \<^verbatim>\<open>_execute_enhanced_monitoring\<close> and \<^verbatim>\<open>_execute_emergency_stop\<close> write
  to the logger, which is all they do.
\<close>

record strategic_system =
  predator_sounds :: sound_library
  response_history :: "log_entry list"
  handler_log :: "(ActionType \<times> string) list"

definition execute_enhanced_monitoring :: "StrategicAction \<Rightarrow> strategic_system \<Rightarrow> strategic_system" where
  "execute_enhanced_monitoring action s =
     s\<lparr>handler_log := handler_log s @ [(MONITOR, description action)]\<rparr>"

definition execute_emergency_stop :: "StrategicAction \<Rightarrow> strategic_system \<Rightarrow> strategic_system" where
  "execute_emergency_stop action s =
     s\<lparr>handler_log := handler_log s @ [(EMERGENCY_STOP, description action)]\<rparr>"

definition make_log_entry :: "string \<Rightarrow> bird_data \<Rightarrow> StrategicAction \<Rightarrow> log_entry" where
  "make_log_entry now bd action =
     \<lparr>log_timestamp = now,
      log_action = action_value (action_type action),
      log_species = scientific_of bd,
      log_threat_level = (case bd_alert_level bd of None \<Rightarrow> ''UNKNOWN'' | Some l \<Rightarrow> l),
      log_success_probability = success_probability action,
      log_automated = automated action\<rparr>"

text \<open>
  \<^verbatim>\<open>_log_action_execution\<close>: append, then keep the last 1000 entries when there are more.
\<close>

definition log_action_execution ::
    "string \<Rightarrow> StrategicAction \<Rightarrow> bird_data \<Rightarrow> strategic_system \<Rightarrow> strategic_system" where
  "log_action_execution now action bd s =
     (let h = response_history s @ [make_log_entry now bd action]
      in s\<lparr>response_history := (if length h > 1000 then last_n 1000 h else h)\<rparr>)"

text \<open>
  \<^verbatim>\<open>_execute_sound_deterrent\<close>: the only method of the system that reaches
  \<^verbatim>\<open>play_predator_sound\<close>. An exception of the selection leaves the system as it is.
\<close>

definition execute_sound_deterrent ::
    "nat \<Rightarrow> bird_data \<Rightarrow> StrategicAction \<Rightarrow> strategic_system \<Rightarrow> py_error + strategic_system" where
  "execute_sound_deterrent pick bd action s =
     (let species = (case bd_species bd of
                       None \<Rightarrow> ''Unknown''
                     | Some si \<Rightarrow> (case common si of None \<Rightarrow> ''Unknown'' | Some n \<Rightarrow> n));
          behavior = (case bd_behavioral_prediction bd of
                        None \<Rightarrow> ''unknown''
                      | Some bi \<Rightarrow> (case primary_intent bi of None \<Rightarrow> ''unknown'' | Some i \<Rightarrow> i));
          level = (case bd_alert_level bd of None \<Rightarrow> ''LOW'' | Some l \<Rightarrow> l);
          volume = (if level = ''CRITICAL'' \<or> level = ''HIGH'' then 0.9 else 0.7)
      in case get_effective_predator_sound species behavior pick
                (sound_cache (predator_sounds s)) of
           Inl e \<Rightarrow> Inl e
         | Inr predator_sound \<Rightarrow>
             Inr (s\<lparr>predator_sounds :=
                      snd (play_predator_sound predator_sound volume (predator_sounds s))\<rparr>))"

text \<open>
  The body of the loop of \<^verbatim>\<open>execute_automated_response\<close> for one action, and the loop.
\<close>

definition respond_to_action ::
    "string \<Rightarrow> bird_data \<Rightarrow> strategic_system \<Rightarrow> StrategicAction \<Rightarrow> strategic_system" where
  "respond_to_action now bd s action =
     (if automated action
      then
        if action_type action = SOUND_DETERRENT then s
        else
          let s1 = (if action_type action = MONITOR then execute_enhanced_monitoring action s
                    else if action_type action = EMERGENCY_STOP
                    then execute_emergency_stop action s
                    else s)
          in log_action_execution now action bd s1
      else s)"

definition execute_automated_response ::
    "string \<Rightarrow> bird_data \<Rightarrow> NextActionRecommendation \<Rightarrow> strategic_system \<Rightarrow> strategic_system" where
  "execute_automated_response now bd recommendation s =
     foldl (respond_to_action now bd) s (recommended_actions recommendation)"

text \<open>
  A sequence of detections, each with its time stamp, alert and recommendation, answered
  one after the other.
\<close>

definition process_detections ::
    "(string \<times> bird_data \<times> NextActionRecommendation) list \<Rightarrow> strategic_system \<Rightarrow> strategic_system" where
  "process_detections detections s =
     foldl (\<lambda>s' (now, bd, recommendation). execute_automated_response now bd recommendation s')
       s detections"

subsection \<open>Notions used in the statements\<close>

text \<open>
  The automated actions that \<^verbatim>\<open>execute_automated_response\<close> does not skip, and those
  among them whose type has a handler.
\<close>

definition is_logged :: "StrategicAction \<Rightarrow> bool" where
  "is_logged a = (automated a \<and> action_type a \<noteq> SOUND_DETERRENT)"

definition has_handler :: "StrategicAction \<Rightarrow> bool" where
  "has_handler a = (automated a \<and> (action_type a = MONITOR \<or> action_type a = EMERGENCY_STOP))"

text \<open>The response history after new entries: the last 1000 of old and new together.\<close>

definition trim_log :: "log_entry list \<Rightarrow> log_entry list \<Rightarrow> log_entry list" where
  "trim_log old new = (if new = [] then old else last_n 1000 (old @ new))"

text \<open>The status after \<^verbatim>\<open>update_predator_status(False)\<close>: no predator sound is active.\<close>

definition inactive :: predator_status where
  "inactive =
     \<lparr>is_predator_playing = False, predator_play_start = None, predator_play_duration = 0\<rparr>"

text \<open>
  A cache whose sounds all end within the two seconds \<^verbatim>\<open>stop_predator_sound\<close> waits,
  and the state of a library in which at most one playback thread is alive: the thread,
  if there is one, is the one the handle holds, the event is clear, and the thread's
  sleep ends within the length of its sound.
\<close>

definition short_sounds :: "(string \<times> sound) list \<Rightarrow> bool" where
  "short_sounds cache = list_all (\<lambda>kv. sound_length (snd kv) \<le> 2000) cache"

definition one_playback :: "sound_library \<Rightarrow> bool" where
  "one_playback s =
     (short_sounds (sound_cache s) \<and>
      (case live_threads s of
         [] \<Rightarrow> True
       | th # rest \<Rightarrow>
           rest = [] \<and> playback_handle s = Some (thread_id th) \<and> \<not> stop_playback_event s
           \<and> clock s \<le> thread_wake th \<and> thread_wake th \<le> clock s + thread_duration th
           \<and> thread_duration th \<le> 2000))"

text \<open>
  A library with two sounds of five seconds each and an analyzer, and an alert for a
  House Crow at the CRITICAL level.
\<close>

definition two_sound_library :: sound_library where
  "two_sound_library =
     new_library [(''hawk_screech'', \<lparr>sound_length = 5000, sound_volume = 1\<rparr>),
                  (''eagle_cry'', \<lparr>sound_length = 5000, sound_volume = 1\<rparr>)]
       (Some inactive)"

definition crow_alert :: bird_data where
  "crow_alert =
     \<lparr>bd_species = Some \<lparr>scientific = Some ''Corvus splendens'', common = Some ''House Crow''\<rparr>,
      bd_risk_score = Some 0.9, bd_alert_level = Some ''CRITICAL'',
      bd_communication_analysis = Some default_patterns,
      bd_behavioral_prediction = None\<rparr>"

section \<open>Properties\<close>

subsection \<open>Alert thresholds\<close>

text \<open>
  C7. The thresholds are strict: a score above 0.8 is CRITICAL with IMMEDIATE_RUNWAY_CLOSURE,
  otherwise a score above 0.6 is HIGH with DELAY_TAKEOFF, otherwise a score above 0.4 is
  MEDIUM with INCREASE_MONITORING, otherwise the level is LOW with CONTINUE_NORMAL; each
  boundary belongs to the lower tier, and the score 0.8 itself is HIGH with DELAY_TAKEOFF.
\<close>

theorem alert_thresholds_strict:
  "(0.8 < r \<longrightarrow> alert_level_and_action r = (''CRITICAL'', ''IMMEDIATE_RUNWAY_CLOSURE''))
   \<and> (0.6 < r \<and> r \<le> 0.8 \<longrightarrow> alert_level_and_action r = (''HIGH'', ''DELAY_TAKEOFF''))
   \<and> (0.4 < r \<and> r \<le> 0.6 \<longrightarrow> alert_level_and_action r = (''MEDIUM'', ''INCREASE_MONITORING''))
   \<and> (r \<le> 0.4 \<longrightarrow> alert_level_and_action r = (''LOW'', ''CONTINUE_NORMAL''))
   \<and> alert_level_and_action 0.8 = (''HIGH'', ''DELAY_TAKEOFF'')"
  by (simp add: alert_level_and_action_def)

theorem alert_thresholds_strict_witness:
  "alert_level_and_action 0.80001 = (''CRITICAL'', ''IMMEDIATE_RUNWAY_CLOSURE'')
   \<and> alert_level_and_action 0.8 = (''HIGH'', ''DELAY_TAKEOFF'')
   \<and> alert_level_and_action 0.6 = (''MEDIUM'', ''INCREASE_MONITORING'')
   \<and> alert_level_and_action 0.4 = (''LOW'', ''CONTINUE_NORMAL'')"
  using alert_thresholds_strict [of "0.80001"] alert_thresholds_strict [of "0.8"]
    alert_thresholds_strict [of "0.6"] alert_thresholds_strict [of "0.4"]
  by simp

subsection \<open>The risk score is bounded\<close>

lemma base_risk_nonneg: "0 \<le> base_risk_of s"
  by (simp add: base_risk_of_def HIGH_RISK_SPECIES_def)

lemma multiplier_lower:
  "0.8 \<le> (case map_of intent_multipliers k of None \<Rightarrow> 1.0 | Some m \<Rightarrow> (m::real))"
  by (simp add: intent_multipliers_def)

lemma factor_nonneg:
  assumes "0 \<le> c" "c \<le> 1" "0.8 \<le> (m::real)"
  shows "0 \<le> 1 + (m - 1) * c"
proof -
  have "(m - 1) * c \<ge> - 0.2 * c"
    using assms by (intro mult_right_mono) auto
  then show ?thesis using assms by simp
qed

text \<open>
  C1. For every species name, every detection confidence in [0, 1], every pattern that
  has the three keys the scorer indexes (any urgency string, any flags) and every intent
  result whose confidence, when present, is in [0, 1], \<^verbatim>\<open>calculate_enhanced_risk_score\<close>
  returns a score, and the score is in [0, 1].
\<close>

theorem risk_score_bounded:
  assumes "0 \<le> conf" "conf \<le> 1"
    and "alarm_signal p = Some a" "urgency_level p = Some u" "flock_communication p = Some f"
    and "case confidence bi of None \<Rightarrow> True | Some c \<Rightarrow> 0 \<le> c \<and> c \<le> 1"
  shows "\<exists>r. calculate_enhanced_risk_score species conf p bi = Inr r \<and> 0 \<le> r \<and> r \<le> 1"
proof -
  define ic where "ic = (case confidence bi of None \<Rightarrow> 0.0 | Some c \<Rightarrow> c)"
  define m where "m = (case map_of intent_multipliers
      (case primary_intent bi of None \<Rightarrow> ''normal_flight'' | Some i \<Rightarrow> i) of
        None \<Rightarrow> 1.0 | Some m \<Rightarrow> (m::real))"
  define r3 where "r3 = base_risk_of species * conf + (if a then 0.2 else 0)
      + (if u = ''critical'' then 0.3 else if u = ''high'' then 0.15 else 0)
      + (if f then 0.1 else 0)"
  have ic: "0 \<le> ic" "ic \<le> 1"
    using assms(6) by (auto simp: ic_def split: option.splits)
  have m: "0.8 \<le> m"
    unfolding m_def by (rule multiplier_lower)
  have r3: "0 \<le> r3"
    unfolding r3_def using base_risk_nonneg[of species] assms(1) by simp
  have eq: "calculate_enhanced_risk_score species conf p bi
      = Inr (min (r3 * (1 + (m - 1) * ic)) 1)"
    using assms(3-5)
    by (simp add: calculate_enhanced_risk_score_def getitem_def Let_def r3_def m_def ic_def)
  have "0 \<le> r3 * (1 + (m - 1) * ic)"
    using r3 factor_nonneg[OF ic m] by simp
  then show ?thesis using eq by simp
qed

theorem risk_score_bounded_witness:
  "calculate_enhanced_risk_score ''Corvus splendens'' 0.88
     (default_patterns\<lparr>urgency_level := Some ''critical'', flock_communication := Some True,
        alarm_signal := Some True\<rparr>)
     \<lparr>primary_intent = Some ''landing_approach'', confidence = Some 1, all_scores = []\<rparr>
   = Inr 1"
proof -
  let ?p = "default_patterns\<lparr>urgency_level := Some ''critical'',
      flock_communication := Some True, alarm_signal := Some True\<rparr>"
  let ?bi = "\<lparr>primary_intent = Some ''landing_approach'', confidence = Some (1::real),
      all_scores = []\<rparr>"
  have "\<exists>r. calculate_enhanced_risk_score ''Corvus splendens'' 0.88 ?p ?bi = Inr r
      \<and> 0 \<le> r \<and> r \<le> 1"
    by (rule risk_score_bounded [of "0.88" ?p True "''critical''" True ?bi])
      (simp_all add: default_patterns_def)
  moreover have "calculate_enhanced_risk_score ''Corvus splendens'' 0.88 ?p ?bi
      = Inr (min (1392 / 1000 * 15 / 10) 1)"
    by (simp add: calculate_enhanced_risk_score_def getitem_def Let_def base_risk_of_def
        HIGH_RISK_SPECIES_def intent_multipliers_def default_patterns_def)
  ultimately show ?thesis by simp
qed

subsection \<open>The intent scores\<close>

lemma max_from_ge:
  "snd b \<le> snd (max_from b xs) \<and> (\<forall>y\<in>set xs. snd y \<le> snd (max_from b xs))"
proof (induction xs arbitrary: b)
  case Nil
  then show ?case by simp
next
  case (Cons x xs)
  show ?case
  proof (cases "snd x > snd b")
    case True
    with Cons.IH[of x] show ?thesis by auto
  next
    case False
    with Cons.IH[of b] show ?thesis by auto
  qed
qed

lemma max_from_mem: "max_from b xs \<in> set (b # xs)"
  by (induction xs arbitrary: b) auto

lemma find_max_from:
  "find (\<lambda>kv. snd (max_from b xs) \<le> snd kv) (b # xs) = Some (max_from b xs)"
proof (induction xs arbitrary: b)
  case Nil
  then show ?case by simp
next
  case (Cons x xs)
  show ?case
  proof (cases "snd x > snd b")
    case True
    have "snd x \<le> snd (max_from x xs)" using max_from_ge[of x xs] by simp
    with True have "\<not> snd (max_from x xs) \<le> snd b" by simp
    with True Cons.IH[of x] show ?thesis by simp
  next
    case False
    show ?thesis
    proof (cases "snd (max_from b xs) \<le> snd b")
      case True
      with False Cons.IH[of b] show ?thesis by simp
    next
      case nb: False
      with False have "\<not> snd (max_from b xs) \<le> snd x" by simp
      with False nb Cons.IH[of b] show ?thesis by simp
    qed
  qed
qed

text \<open>Python's \<^verbatim>\<open>max\<close> with a key returns the first maximum.\<close>

lemma max_key_first_maximum:
  assumes "max_key scores = Inr m"
  shows "first_maximum scores = Some m"
proof -
  from assms obtain b xs where s: "scores = b # xs" and m: "m = max_from b xs"
    by (auto simp: max_key_def split: list.splits)
  have eq: "(\<lambda>kv. list_all (\<lambda>kv'. snd kv' \<le> snd kv) (b # xs)) = (\<lambda>kv. snd m \<le> snd kv)"
  proof (rule ext)
    fix kv
    show "list_all (\<lambda>kv'. snd kv' \<le> snd kv) (b # xs) = (snd m \<le> snd kv)"
    proof
      assume "list_all (\<lambda>kv'. snd kv' \<le> snd kv) (b # xs)"
      then show "snd m \<le> snd kv"
        using max_from_mem[of b xs] unfolding m list_all_iff by blast
    next
      assume a: "snd m \<le> snd kv"
      have "\<forall>y\<in>set (b # xs). snd y \<le> snd m" using max_from_ge[of b xs] m by simp
      then show "list_all (\<lambda>kv'. snd kv' \<le> snd kv) (b # xs)"
        unfolding list_all_iff using a by fastforce
    qed
  qed
  have "first_maximum scores = find (\<lambda>kv. snd m \<le> snd kv) (b # xs)"
    by (simp only: first_maximum_def s eq)
  then show ?thesis using find_max_from[of b xs] m by simp
qed

text \<open>
  The additive contributions in closed form: 0.4 to predator avoidance for an alarm
  signal, 0.3 to territory defense for territorial behaviour, 0.4 to flock gathering for
  flock communication; from the last five entries of a non-empty history, 0.3 to predator
  avoidance when more than two had an alarm signal and 0.2 to territory defense when more
  than one had territorial behaviour.
\<close>

lemma accumulate_closed:
  "accumulate_scores a t f h =
     [(''landing_approach'', 0),
      (''territory_defense'', (if t then 0.3 else 0) +
          (if h \<noteq> [] \<and> 1 < length (filter (\<lambda>p. get_flag (territorial_behavior p)) (last_n 5 h))
           then 0.2 else 0)),
      (''flock_gathering'', (if f then 0.4 else 0)),
      (''predator_avoidance'', (if a then 0.4 else 0) +
          (if h \<noteq> [] \<and> 2 < length (filter (\<lambda>p. get_flag (alarm_signal p)) (last_n 5 h))
           then 0.3 else 0)),
      (''normal_flight'', 0)]"
  by (simp add: accumulate_scores_def add_score_def initial_intent_scores_def Let_def)

lemma accumulate_shape:
  obtains x y z where "0 \<le> x" "0 \<le> y" "0 \<le> z"
    "accumulate_scores a t f h =
       [(''landing_approach'', 0), (''territory_defense'', x), (''flock_gathering'', y),
        (''predator_avoidance'', z), (''normal_flight'', 0)]"
proof -
  define x :: real where "x = (if t then 0.3 else 0) +
    (if h \<noteq> [] \<and> 1 < length (filter (\<lambda>p. get_flag (territorial_behavior p)) (last_n 5 h))
     then 0.2 else 0)"
  define y :: real where "y = (if f then 0.4 else 0)"
  define z :: real where "z = (if a then 0.4 else 0) +
    (if h \<noteq> [] \<and> 2 < length (filter (\<lambda>p. get_flag (alarm_signal p)) (last_n 5 h))
     then 0.3 else 0)"
  have "0 \<le> x" "0 \<le> y" "0 \<le> z" by (simp_all add: x_def y_def z_def)
  moreover have "accumulate_scores a t f h =
       [(''landing_approach'', 0), (''territory_defense'', x), (''flock_gathering'', y),
        (''predator_avoidance'', z), (''normal_flight'', 0)]"
    unfolding x_def y_def z_def by (rule accumulate_closed)
  ultimately show thesis by (rule that)
qed

lemma find_map_of:
  assumes "find P xs = Some (k, c)" "distinct (map fst xs)"
  shows "map_of xs k = Some c"
proof -
  from assms(1) have "(k, c) \<in> set xs" by (auto simp: find_Some_iff)
  with assms(2) show ?thesis by simp
qed

lemma predict_present:
  assumes "alarm_signal p = Some a" "territorial_behavior p = Some t"
    "flock_communication p = Some f"
    and "normalize_scores (accumulate_scores a t f h) = b # xs"
  shows "predict_behavioral_intent p h =
     \<lparr>primary_intent = Some (fst (max_from b xs)), confidence = Some (snd (max_from b xs)),
      all_scores = b # xs\<rparr>"
  using assms
  by (simp add: predict_behavioral_intent_def getitem_def max_key_def Let_def
      split: prod.splits)

text \<open>
  C5. For a pattern that has its three flags and any history, the scores of
  \<^verbatim>\<open>predict_behavioral_intent\<close> are a distribution over the five intents in their fixed
  order: none is negative and they sum to 1. When the total of the additive contributions
  is positive, every score is its contribution divided by the total; otherwise normal
  flight has 1 and the other four have 0. The primary intent is the first maximum in the
  fixed order, and the confidence is the score of the primary intent.
\<close>

theorem intent_scores_distribution:
  assumes "alarm_signal p = Some a" "territorial_behavior p = Some t"
    "flock_communication p = Some f"
  shows "let raw = accumulate_scores a t f h;
             total = sum_list (map snd raw);
             r = predict_behavioral_intent p h
         in map fst (all_scores r) = intent_order
          \<and> list_all (\<lambda>kv. 0 \<le> snd kv) (all_scores r)
          \<and> sum_list (map snd (all_scores r)) = 1
          \<and> (0 < total \<longrightarrow> all_scores r = map (\<lambda>(k, x). (k, x / total)) raw)
          \<and> (\<not> 0 < total \<longrightarrow>
               all_scores r = [(''landing_approach'', 0), (''territory_defense'', 0),
                  (''flock_gathering'', 0), (''predator_avoidance'', 0), (''normal_flight'', 1)])
          \<and> (\<exists>k c. first_maximum (all_scores r) = Some (k, c)
                \<and> primary_intent r = Some k \<and> confidence r = Some c
                \<and> map_of (all_scores r) k = Some c)"
proof -
  obtain x y z where nn: "0 \<le> x" "0 \<le> y" "0 \<le> z"
    and raw: "accumulate_scores a t f h =
       [(''landing_approach'', 0), (''territory_defense'', x), (''flock_gathering'', y),
        (''predator_avoidance'', z), (''normal_flight'', 0)]"
    by (rule accumulate_shape)
  define total where "total = x + y + z"
  have tot: "sum_list (map snd (accumulate_scores a t f h)) = total"
    by (simp add: raw total_def)
  define ns where "ns = normalize_scores (accumulate_scores a t f h)"
  have ns_pos: "ns = map (\<lambda>(k, x). (k, x / total)) (accumulate_scores a t f h)" if "0 < total"
    using that tot by (simp add: ns_def normalize_scores_def Let_def)
  have ns_zero: "ns = [(''landing_approach'', 0), (''territory_defense'', 0),
      (''flock_gathering'', 0), (''predator_avoidance'', 0), (''normal_flight'', 1)]"
    if "\<not> 0 < total"
  proof -
    from that nn have "x = 0" "y = 0" "z = 0" by (auto simp: total_def)
    then show ?thesis using that tot
      by (simp add: ns_def normalize_scores_def Let_def raw set_score_def)
  qed
  have keys: "map fst ns = intent_order"
    by (cases "0 < total") (simp_all add: ns_pos ns_zero raw intent_order_def)
  have nonneg: "list_all (\<lambda>kv. 0 \<le> snd kv) ns"
    by (cases "0 < total") (use nn in \<open>simp_all add: ns_pos ns_zero raw\<close>)
  have sum1: "sum_list (map snd ns) = 1"
  proof (cases "0 < total")
    case True
    then have "sum_list (map snd ns) = (x + y + z) / total"
      by (simp add: ns_pos raw add_divide_distrib)
    with True show ?thesis by (simp add: total_def)
  next
    case False
    then show ?thesis by (simp add: ns_zero)
  qed
  from keys obtain b xs where bx: "ns = b # xs"
    by (cases ns) (auto simp: intent_order_def)
  have r: "predict_behavioral_intent p h =
     \<lparr>primary_intent = Some (fst (max_from b xs)), confidence = Some (snd (max_from b xs)),
      all_scores = ns\<rparr>"
    using predict_present[OF assms, of h b xs] bx by (simp add: ns_def)
  have "max_key ns = Inr (max_from b xs)" by (simp add: max_key_def bx)
  then have fm: "first_maximum ns = Some (fst (max_from b xs), snd (max_from b xs))"
    using max_key_first_maximum by simp
  have "distinct (map fst ns)" by (simp add: keys intent_order_def)
  with fm have mo: "map_of ns (fst (max_from b xs)) = Some (snd (max_from b xs))"
    unfolding first_maximum_def by (rule find_map_of)
  show ?thesis
    unfolding Let_def tot r
    using keys nonneg sum1 ns_pos ns_zero fm mo by simp
qed

theorem intent_scores_distribution_witness:
  "sum_list (map snd (all_scores (predict_behavioral_intent
       (default_patterns\<lparr>flock_communication := Some True, alarm_signal := Some True\<rparr>) []))) = 1
   \<and> predict_behavioral_intent
       (default_patterns\<lparr>flock_communication := Some True, alarm_signal := Some True\<rparr>) []
     = \<lparr>primary_intent = Some ''flock_gathering'', confidence = Some (1 / 2),
        all_scores = [(''landing_approach'', 0), (''territory_defense'', 0),
          (''flock_gathering'', 1 / 2), (''predator_avoidance'', 1 / 2),
          (''normal_flight'', 0)]\<rparr>"
proof -
  let ?p = "default_patterns\<lparr>flock_communication := Some True, alarm_signal := Some True\<rparr>"
  have "sum_list (map snd (all_scores (predict_behavioral_intent ?p []))) = 1"
    using intent_scores_distribution [of ?p True False True "[]"]
    by (simp add: default_patterns_def Let_def)
  moreover have "predict_behavioral_intent ?p []
     = \<lparr>primary_intent = Some ''flock_gathering'', confidence = Some (1 / 2),
        all_scores = [(''landing_approach'', 0), (''territory_defense'', 0),
          (''flock_gathering'', 1 / 2), (''predator_avoidance'', 1 / 2),
          (''normal_flight'', 0)]\<rparr>"
    by (simp add: predict_behavioral_intent_def getitem_def default_patterns_def
        accumulate_closed normalize_scores_def max_key_def Let_def)
  ultimately show ?thesis by simp
qed

text \<open>
  C10. When the pattern lacks one of the keys \<^verbatim>\<open>alarm_signal\<close>,
  \<^verbatim>\<open>territorial_behavior\<close>, \<^verbatim>\<open>flock_communication\<close>, the call does not raise: the
  handler returns the primary intent \<^verbatim>\<open>unknown\<close>, which is none of the five intents, the
  confidence 0 and no scores, whose sum is therefore not 1.
\<close>

theorem predict_missing_key_unknown:
  assumes "alarm_signal p = None \<or> territorial_behavior p = None
    \<or> flock_communication p = None"
  shows "predict_behavioral_intent p h =
           \<lparr>primary_intent = Some ''unknown'', confidence = Some 0, all_scores = []\<rparr>
       \<and> ''unknown'' \<notin> set intent_order
       \<and> sum_list (map snd (all_scores (predict_behavioral_intent p h))) \<noteq> 1"
proof -
  have "predict_behavioral_intent p h = unknown_intent"
    using assms
    by (auto simp: predict_behavioral_intent_def getitem_def split: option.splits)
  then show ?thesis
    by (simp add: unknown_intent_def intent_order_def)
qed

theorem predict_missing_key_unknown_witness:
  "predict_behavioral_intent (default_patterns\<lparr>territorial_behavior := None\<rparr>) [default_patterns]
     = \<lparr>primary_intent = Some ''unknown'', confidence = Some 0, all_scores = []\<rparr>"
  using predict_missing_key_unknown
    [of "default_patterns\<lparr>territorial_behavior := None\<rparr>" "[default_patterns]"]
  by simp

subsection \<open>Urgency within one classification\<close>

text \<open>
  C4. The classifier on a House Crow call with a tempo of 200 and a zero-crossing
  variance of 0.02: the species has both alarm patterns, the tempo rule sets the urgency
  to critical, and the pitch rule, which has no test of the urgency, sets it to high.
  The same call with a variance of 0.012, under the pitch threshold, stays critical.
\<close>

theorem pitch_rule_lowers_critical:
  "analyze_communication_patterns
     (Some \<lparr>mfcc = Some (), spectral_centroid = Some 1000, tempo = Some 200,
            zero_crossing_rate = Some 0.02\<rparr>)
     (Some \<lparr>scientific = Some ''Corvus splendens'', common = Some ''House Crow''\<rparr>)
   = \<lparr>call_type = Some ''contact_call'', emotional_state = Some ''alarmed'',
      behavioral_context = Some ''predator_warning'', urgency_level = Some ''high'',
      flock_communication = Some True, territorial_behavior = Some False,
      alarm_signal = Some True\<rparr>
   \<and> urgency_level (analyze_communication_patterns
        (Some \<lparr>mfcc = Some (), spectral_centroid = Some 1000, tempo = Some 200,
               zero_crossing_rate = Some 0.012\<rparr>)
        (Some \<lparr>scientific = Some ''Corvus splendens'', common = Some ''House Crow''\<rparr>))
     = Some ''critical''
   \<and> urgency_rank ''high'' < urgency_rank ''critical''"
  by (simp add: analyze_communication_patterns_def species_specific_def alarm_patterns_of_def
      HIGH_RISK_SPECIES_def default_patterns_def urgency_rank_def Let_def)

subsection \<open>Selection from an empty library\<close>

text \<open>
  C6. With no sound in the cache, \<^verbatim>\<open>get_effective_predator_sound\<close> raises
  \<^verbatim>\<open>IndexError\<close> for every species, behaviour and random choice, and
  \<^verbatim>\<open>_execute_sound_deterrent\<close>, which has no handler either, passes it on.
\<close>

theorem empty_library_selection_raises:
  "get_effective_predator_sound bird_species bird_behavior pick [] = Inl IndexError
   \<and> execute_sound_deterrent pick bd action
        (s\<lparr>predator_sounds := (predator_sounds s)\<lparr>sound_cache := []\<rparr>\<rparr>) = Inl IndexError"
  by (simp add: get_effective_predator_sound_def execute_sound_deterrent_def Let_def)

subsection \<open>The confidence of a recommendation\<close>

text \<open>
  C8, as amended. For every situation analysis and every non-empty list of actions, the
  confidence score is \<open>(b + avg) / 2 - min (0.1 * n) 0.3\<close> clamped to [0, 1], where
  \<open>avg\<close> is the average success probability of the actions, \<open>n\<close> the number of
  complexity factors, and the base \<open>b\<close> is 0.9 when the similar incidents exceed 5 and
  0.8 otherwise: the bonus of 0.1 is added to the base before the halving. The similar
  incidents are the entries of the decision history with the species of the alert.
\<close>

theorem confidence_score_formula:
  assumes "strategies \<noteq> []"
  shows "calculate_confidence_score analysis strategies =
           Inr (max 0 (min 1
             (((if similar_incidents (history_context analysis) > 5 then 0.9 else 0.8)
                 + average_success strategies) / 2
              - min (0.1 * real (length (complexity_factors analysis))) 0.3)))
       \<and> similar_incidents (get_historical_context decision_history bd)
           = length (filter (\<lambda>i. incident_species i = Some (scientific_of bd)) decision_history)"
  using assms
  by (simp add: calculate_confidence_score_def average_success_def get_historical_context_def
      Let_def mult.commute)

theorem confidence_score_formula_witness:
  "calculate_confidence_score
     \<lparr>threat_level = CRITICAL, urgency_score = 0.9, complexity_factors = [],
      history_context = \<lparr>similar_incidents = 6, average_success_rate = 0\<rparr>\<rparr>
     (generate_critical_threat_strategies crow_alert
        \<lparr>threat_level = CRITICAL, urgency_score = 0.9, complexity_factors = [],
         history_context = \<lparr>similar_incidents = 6, average_success_rate = 0\<rparr>\<rparr>)
   = Inr 0.89"
  using confidence_score_formula
    [of "generate_critical_threat_strategies crow_alert
          \<lparr>threat_level = CRITICAL, urgency_score = 0.9, complexity_factors = [],
           history_context = \<lparr>similar_incidents = 6, average_success_rate = 0\<rparr>\<rparr>"
        "\<lparr>threat_level = CRITICAL, urgency_score = 0.9, complexity_factors = [],
          history_context = \<lparr>similar_incidents = 6, average_success_rate = 0\<rparr>\<rparr>"]
  by (simp add: generate_critical_threat_strategies_def average_success_def)

text \<open>
  C8, as stated, fails. With six similar incidents, no complexity factor and the actions
  of the critical template (average success probability 0.88), the code returns 0.89; the
  stated formula gives 0.84, and with a bonus of 0.1 it gives 0.94, whether the bonus is
  added under the clamp or after it.
\<close>

theorem confidence_bonus_counterexample:
  "calculate_confidence_score
     \<lparr>threat_level = CRITICAL, urgency_score = 0.9, complexity_factors = [],
      history_context = \<lparr>similar_incidents = 6, average_success_rate = 0\<rparr>\<rparr>
     (generate_critical_threat_strategies crow_alert
        \<lparr>threat_level = CRITICAL, urgency_score = 0.9, complexity_factors = [],
         history_context = \<lparr>similar_incidents = 6, average_success_rate = 0\<rparr>\<rparr>)
     \<noteq> Inr (spec_confidence_inside 0
          (average_success (generate_critical_threat_strategies crow_alert
            \<lparr>threat_level = CRITICAL, urgency_score = 0.9, complexity_factors = [],
             history_context = \<lparr>similar_incidents = 6, average_success_rate = 0\<rparr>\<rparr>)) 6)
   \<and> calculate_confidence_score
     \<lparr>threat_level = CRITICAL, urgency_score = 0.9, complexity_factors = [],
      history_context = \<lparr>similar_incidents = 6, average_success_rate = 0\<rparr>\<rparr>
     (generate_critical_threat_strategies crow_alert
        \<lparr>threat_level = CRITICAL, urgency_score = 0.9, complexity_factors = [],
         history_context = \<lparr>similar_incidents = 6, average_success_rate = 0\<rparr>\<rparr>)
     \<noteq> Inr (spec_confidence_outside 0
          (average_success (generate_critical_threat_strategies crow_alert
            \<lparr>threat_level = CRITICAL, urgency_score = 0.9, complexity_factors = [],
             history_context = \<lparr>similar_incidents = 6, average_success_rate = 0\<rparr>\<rparr>)) 6)"
  by (simp add: calculate_confidence_score_def generate_critical_threat_strategies_def
      average_success_def spec_confidence_inside_def spec_confidence_outside_def Let_def)

subsection \<open>Automated responses\<close>

lemma last_n_append: "last_n n (last_n n xs @ ys) = last_n n (xs @ ys)"
proof (cases "n \<le> length xs")
  case True
  then have "length xs + length ys - (length xs - n + n) + (length xs - n)
      = length xs + length ys - n" by simp
  then show ?thesis by (simp add: last_n_def)
next
  case False
  then show ?thesis by (simp add: last_n_def)
qed

lemma respond_sounds: "predator_sounds (respond_to_action now bd s a) = predator_sounds s"
  by (simp add: respond_to_action_def log_action_execution_def execute_enhanced_monitoring_def
      execute_emergency_stop_def Let_def)

lemma respond_handler:
  "handler_log (respond_to_action now bd s a)
     = handler_log s @ (if has_handler a then [(action_type a, description a)] else [])"
  by (simp add: respond_to_action_def log_action_execution_def execute_enhanced_monitoring_def
      execute_emergency_stop_def has_handler_def Let_def)

lemma respond_history:
  "response_history (respond_to_action now bd s a)
     = (if is_logged a then last_n 1000 (response_history s @ [make_log_entry now bd a])
        else response_history s)"
  by (simp add: respond_to_action_def log_action_execution_def execute_enhanced_monitoring_def
      execute_emergency_stop_def is_logged_def Let_def last_n_def)

lemma fold_sounds:
  "predator_sounds (foldl (respond_to_action now bd) s as) = predator_sounds s"
  by (induction as arbitrary: s) (simp_all add: respond_sounds)

lemma fold_handler:
  "handler_log (foldl (respond_to_action now bd) s as)
     = handler_log s @ map (\<lambda>a. (action_type a, description a)) (filter has_handler as)"
  by (induction as arbitrary: s) (simp_all add: respond_handler)

lemma fold_history:
  "response_history (foldl (respond_to_action now bd) s as)
     = trim_log (response_history s) (map (make_log_entry now bd) (filter is_logged as))"
proof (induction as arbitrary: s)
  case Nil
  then show ?case by (simp add: trim_log_def)
next
  case (Cons a as)
  show ?case
  proof (cases "is_logged a")
    case False
    then show ?thesis by (simp add: Cons.IH respond_history)
  next
    case True
    let ?e = "make_log_entry now bd a"
    let ?rest = "map (make_log_entry now bd) (filter is_logged as)"
    have "response_history (foldl (respond_to_action now bd) s (a # as))
        = trim_log (last_n 1000 (response_history s @ [?e])) ?rest"
      using True by (simp add: Cons.IH respond_history)
    also have "\<dots> = last_n 1000 (response_history s @ ?e # ?rest)"
    proof (cases "?rest = []")
      case True
      then show ?thesis by (simp add: trim_log_def)
    next
      case False
      then show ?thesis
        using last_n_append[of 1000 "response_history s @ [?e]" ?rest]
        by (simp add: trim_log_def)
    qed
    finally show ?thesis using True by (simp add: trim_log_def)
  qed
qed

lemma process_sounds: "predator_sounds (process_detections ds s) = predator_sounds s"
  unfolding process_detections_def
  by (induction ds arbitrary: s)
     (simp_all add: execute_automated_response_def fold_sounds split: prod.splits)

text \<open>
  C3. A run of \<^verbatim>\<open>execute_automated_response\<close> over any recommendation leaves the sound
  library as it was: no action starts a sound, whatever its type and flag. Every automated
  action of another type gets one entry in the response history, in the order of the
  recommendation, and the history keeps its last 1000 entries; of these actions, MONITOR
  and EMERGENCY_STOP run their handler first, and the other types have no handler. A
  SOUND_DETERRENT action runs no handler and gets no entry. Over any sequence of
  detections the sound library stays as it was.
\<close>

theorem sound_deterrent_never_automatic:
  "predator_sounds (execute_automated_response now bd recommendation s) = predator_sounds s
   \<and> handler_log (execute_automated_response now bd recommendation s)
       = handler_log s @ map (\<lambda>a. (action_type a, description a))
           (filter has_handler (recommended_actions recommendation))
   \<and> response_history (execute_automated_response now bd recommendation s)
       = trim_log (response_history s)
           (map (make_log_entry now bd) (filter is_logged (recommended_actions recommendation)))
   \<and> predator_sounds (process_detections detections s) = predator_sounds s"
  by (simp add: execute_automated_response_def fold_sounds fold_handler fold_history
      process_sounds)

theorem sound_deterrent_never_automatic_witness:
  "execute_automated_response ''2025-01-01T00:00:00'' crow_alert
     \<lparr>timestamp = ''2025-01-01T00:00:00'', situation_analysis = [],
      recommended_actions = generate_critical_threat_strategies crow_alert
        (analyze_situation [] crow_alert),
      risk_factors = [], success_metrics = [], confidence_score = 0.84, reasoning = []\<rparr>
     \<lparr>predator_sounds = two_sound_library, response_history = [], handler_log = []\<rparr>
   = \<lparr>predator_sounds = two_sound_library,
      response_history =
        [\<lparr>log_timestamp = ''2025-01-01T00:00:00'', log_action = ''EMERGENCY_STOP'',
          log_species = ''Corvus splendens'', log_threat_level = ''CRITICAL'',
          log_success_probability = 0.99, log_automated = True\<rparr>],
      handler_log =
        [(EMERGENCY_STOP, ''Immediate emergency stop of all runway operations'')]\<rparr>"
proof -
  let ?r = "\<lparr>timestamp = ''2025-01-01T00:00:00'', situation_analysis = [],
      recommended_actions = generate_critical_threat_strategies crow_alert
        (analyze_situation [] crow_alert),
      risk_factors = [], success_metrics = [], confidence_score = 0.84, reasoning = []\<rparr>"
  let ?s = "\<lparr>predator_sounds = two_sound_library, response_history = [],
      handler_log = []\<rparr>"
  let ?t = "execute_automated_response ''2025-01-01T00:00:00'' crow_alert ?r ?s"
  have "predator_sounds ?t = two_sound_library
      \<and> handler_log ?t = [(EMERGENCY_STOP, ''Immediate emergency stop of all runway operations'')]
      \<and> response_history ?t =
        [\<lparr>log_timestamp = ''2025-01-01T00:00:00'', log_action = ''EMERGENCY_STOP'',
          log_species = ''Corvus splendens'', log_threat_level = ''CRITICAL'',
          log_success_probability = 0.99, log_automated = True\<rparr>]"
    using sound_deterrent_never_automatic [of "''2025-01-01T00:00:00''" crow_alert ?r ?s "[]"]
    by (simp add: generate_critical_threat_strategies_def has_handler_def is_logged_def
        trim_log_def last_n_def make_log_entry_def scientific_of_def crow_alert_def)
  then show ?thesis by (cases ?t) simp
qed

subsection \<open>Stopping the playback\<close>

lemma update_false: "update_predator_status False d t = inactive"
  by (simp add: update_predator_status_def inactive_def)

lemma stop_handle: "playback_handle (stop_predator_sound s) = None"
  by (simp add: stop_predator_sound_def Let_def)

lemma stop_event: "stop_playback_event (stop_predator_sound s)"
  by (simp add: stop_predator_sound_def Let_def join_def advance_to_def
      split: option.splits)

lemma stop_analyzer:
  "communication_analyzer (stop_predator_sound s)
     = map_option (\<lambda>_. inactive) (communication_analyzer s)"
  by (cases "communication_analyzer s")
     (simp_all add: stop_predator_sound_def Let_def join_def advance_to_def update_false
      split: option.splits)

lemma stop_untracked:
  assumes "case playback_handle s of None \<Rightarrow> True | Some tid \<Rightarrow> \<not> is_alive tid s"
  shows "stop_predator_sound s =
     s\<lparr>playback_handle := None, stop_playback_event := True,
       communication_analyzer := map_option (\<lambda>_. inactive) (communication_analyzer s)\<rparr>"
  using assms
  by (cases "communication_analyzer s")
     (auto simp: stop_predator_sound_def Let_def update_false is_alive_def split: option.splits)

text \<open>
  C9. A second call of \<^verbatim>\<open>stop_predator_sound\<close> right after a first leaves the library
  as the first left it: the handle cleared, the event set, the analyzer, if there is
  one, told that no sound is active. When the handle holds no live thread, a call
  changes nothing but these three: no thread is touched and no time passes.
\<close>

theorem stop_idempotent:
  "stop_predator_sound (stop_predator_sound s) = stop_predator_sound s
   \<and> playback_handle (stop_predator_sound s) = None
   \<and> stop_playback_event (stop_predator_sound s)
   \<and> communication_analyzer (stop_predator_sound s)
       = map_option (\<lambda>_. inactive) (communication_analyzer s)
   \<and> ((case playback_handle s of None \<Rightarrow> True | Some tid \<Rightarrow> \<not> is_alive tid s) \<longrightarrow>
        stop_predator_sound s =
          s\<lparr>playback_handle := None, stop_playback_event := True,
            communication_analyzer := map_option (\<lambda>_. inactive) (communication_analyzer s)\<rparr>)"
proof -
  let ?t = "stop_predator_sound s"
  have "stop_predator_sound ?t =
     ?t\<lparr>playback_handle := None, stop_playback_event := True,
       communication_analyzer := map_option (\<lambda>_. inactive) (communication_analyzer ?t)\<rparr>"
    by (rule stop_untracked) (simp add: stop_handle)
  also have "\<dots> = ?t"
    using stop_handle[of s] stop_event[of s] stop_analyzer[of s]
    by (cases "communication_analyzer s") (simp_all add: option.map_comp)
  finally have "stop_predator_sound ?t = ?t" .
  then show ?thesis
    using stop_handle[of s] stop_event[of s] stop_analyzer[of s] stop_untracked[of s]
    by simp
qed

theorem stop_idempotent_witness:
  "stop_predator_sound two_sound_library = two_sound_library\<lparr>stop_playback_event := True\<rparr>
   \<and> stop_predator_sound (stop_predator_sound two_sound_library)
       = two_sound_library\<lparr>stop_playback_event := True\<rparr>
   \<and> stop_predator_sound (stop_predator_sound
         (snd (play_predator_sound ''eagle_cry'' 0.8 two_sound_library)))
       = stop_predator_sound (snd (play_predator_sound ''eagle_cry'' 0.8 two_sound_library))"
proof -
  have a: "stop_predator_sound two_sound_library
      = two_sound_library\<lparr>stop_playback_event := True\<rparr>"
    using stop_idempotent [of two_sound_library]
    by (simp add: two_sound_library_def new_library_def)
  have b: "stop_predator_sound (stop_predator_sound two_sound_library)
      = stop_predator_sound two_sound_library"
    using stop_idempotent [of two_sound_library] by simp
  have c: "stop_predator_sound (stop_predator_sound
         (snd (play_predator_sound ''eagle_cry'' 0.8 two_sound_library)))
       = stop_predator_sound (snd (play_predator_sound ''eagle_cry'' 0.8 two_sound_library))"
    using stop_idempotent [of "snd (play_predator_sound ''eagle_cry'' 0.8 two_sound_library)"]
    by simp
  from a b c show ?thesis by simp
qed

subsection \<open>Starting a playback over another\<close>

lemmas player_defs = run_calls_def play_predator_sound_def stop_predator_sound_def
  join_def advance_to_def is_alive_def next_wake_def update_predator_status_def
  new_library_def two_sound_library_def inactive_def Let_def

text \<open>
  C2. Two sounds of five seconds. The first is started; one second later the second is
  started: the call sets the event and joins the first thread for two seconds, the
  thread sleeps through them, the call clears the event and starts the second thread.
  When the first thread wakes it finds the event clear and plays again, so five seconds
  later both loops are alive. Three calls without a pause leave three loops alive.
\<close>

theorem play_leaves_earlier_playback_alive:
  "map thread_sound (live_threads (run_calls
      [Play ''hawk_screech'' 0.8, Pause 1000, Play ''eagle_cry'' 0.8, Pause 5000]
      two_sound_library))
     = [''hawk_screech'', ''eagle_cry'']
   \<and> map thread_sound (live_threads (run_calls
      [Play ''hawk_screech'' 0.8, Play ''eagle_cry'' 0.8, Play ''hawk_screech'' 0.8]
      two_sound_library))
     = [''hawk_screech'', ''eagle_cry'', ''hawk_screech'']"
  by (simp add: player_defs)

lemma one_new: "short_sounds cache \<Longrightarrow> one_playback (new_library cache an)"
  by (simp add: one_playback_def new_library_def)

lemma stop_one:
  assumes "one_playback s"
  shows "live_threads (stop_predator_sound s) = []"
    and "sound_cache (stop_predator_sound s) = sound_cache s"
    and "one_playback (stop_predator_sound s)"
proof -
  show c: "sound_cache (stop_predator_sound s) = sound_cache s"
    by (simp add: stop_predator_sound_def Let_def join_def advance_to_def split: option.splits)
  show l: "live_threads (stop_predator_sound s) = []"
  proof (cases "live_threads s")
    case Nil
    then show ?thesis
      by (simp add: stop_predator_sound_def Let_def is_alive_def split: option.splits)
  next
    case (Cons th rest)
    with assms have r: "rest = []" and h: "playback_handle s = Some (thread_id th)"
      and w: "clock s \<le> thread_wake th" "thread_wake th \<le> clock s + thread_duration th"
      and d: "thread_duration th \<le> 2000"
      by (simp_all add: one_playback_def)
    from w d have m: "max (clock s) (min (thread_wake th) (clock s + 2000)) = thread_wake th"
      by simp
    show ?thesis
      using Cons r h m
      by (simp add: stop_predator_sound_def Let_def is_alive_def join_def advance_to_def)
  qed
  from assms have "short_sounds (sound_cache s)" by (simp add: one_playback_def)
  with c l show "one_playback (stop_predator_sound s)" by (simp add: one_playback_def)
qed

lemma short_set_volume:
  "short_sounds (map (\<lambda>(k, v). if k = n then (k, v\<lparr>sound_volume := vol\<rparr>) else (k, v)) cache)
     = short_sounds cache"
  by (induction cache) (auto simp: short_sounds_def split: if_splits)

lemma short_lookup: "short_sounds cache \<Longrightarrow> map_of cache n = Some v \<Longrightarrow> sound_length v \<le> 2000"
  by (induction cache) (auto simp: short_sounds_def split: if_splits)

lemma play_one:
  assumes "one_playback s"
  shows "one_playback (snd (play_predator_sound n vol s))"
    and "map_of (sound_cache s) n \<noteq> None \<Longrightarrow>
         map thread_sound (live_threads (snd (play_predator_sound n vol s))) = [n]"
proof -
  let ?t = "stop_predator_sound s"
  note st = stop_one[OF assms]
  have sh: "short_sounds (sound_cache ?t)" using st(3) by (simp add: one_playback_def)
  show "one_playback (snd (play_predator_sound n vol s))"
  proof (cases "map_of (sound_cache ?t) n")
    case None
    then show ?thesis using st(3) by (simp add: play_predator_sound_def Let_def)
  next
    case (Some v)
    with sh have "sound_length v \<le> 2000" by (rule short_lookup)
    with Some st(1) sh show ?thesis
      by (simp add: play_predator_sound_def Let_def one_playback_def short_set_volume)
  qed
  show "map thread_sound (live_threads (snd (play_predator_sound n vol s))) = [n]"
    if "map_of (sound_cache s) n \<noteq> None"
    using that st(1) st(2) by (auto simp: play_predator_sound_def Let_def)
qed

lemma next_wake_bounds:
  assumes "thread_wake th \<le> t"
  shows "t \<le> next_wake t th \<and> next_wake t th \<le> t + thread_duration th"
proof (cases "thread_duration th = 0")
  case True
  with assms show ?thesis by (simp add: next_wake_def)
next
  case False
  define d where "d = thread_duration th"
  define k where "k = t - thread_wake th"
  have dpos: "0 < d" using False by (simp add: d_def)
  have t: "t = thread_wake th + k" using assms by (simp add: k_def)
  have "k div d * d \<le> k" by simp
  moreover have "k < (k div d + 1) * d"
    using dpos by (metis Suc_eq_plus1 dividend_less_div_times mult.commute mult_Suc add.commute)
  ultimately show ?thesis
    using assms False unfolding next_wake_def d_def[symmetric] k_def[symmetric] t
    by (auto simp: algebra_simps)
qed

lemma pause_one:
  assumes "one_playback s"
  shows "one_playback (advance_to (clock s + d) s)"
proof (cases "live_threads s")
  case Nil
  with assms show ?thesis by (simp add: one_playback_def advance_to_def Let_def)
next
  case (Cons th rest)
  with assms have r: "rest = []" and h: "playback_handle s = Some (thread_id th)"
    and e: "\<not> stop_playback_event s"
    and w: "clock s \<le> thread_wake th" "thread_wake th \<le> clock s + thread_duration th"
    and dd: "thread_duration th \<le> 2000" and sh: "short_sounds (sound_cache s)"
    by (simp_all add: one_playback_def)
  show ?thesis
  proof (cases "clock s + d < thread_wake th")
    case True
    with Cons r h e w dd sh show ?thesis
      by (simp add: one_playback_def advance_to_def next_wake_def)
  next
    case False
    then have "thread_wake th \<le> clock s + d" by simp
    from next_wake_bounds[OF this] Cons r h e dd sh show ?thesis
      by (simp add: one_playback_def advance_to_def)
  qed
qed

lemma step_one: "one_playback s \<Longrightarrow> one_playback (client_step s c)"
  by (cases c) (simp_all add: play_one(1) stop_one(3) pause_one)

lemma run_one: "one_playback s \<Longrightarrow> one_playback (run_calls calls s)"
  unfolding run_calls_def by (induction calls arbitrary: s) (simp_all add: step_one)

lemma stop_cache: "sound_cache (stop_predator_sound s) = sound_cache s"
  by (simp add: stop_predator_sound_def Let_def join_def advance_to_def split: option.splits)

lemma step_keys: "map fst (sound_cache (client_step s c)) = map fst (sound_cache s)"
proof (cases c)
  case (Play n vol)
  have "map fst (map (\<lambda>(k, v). if k = n then (k, v\<lparr>sound_volume := vol\<rparr>) else (k, v)) xs)
      = map fst xs" for xs :: "(string \<times> sound) list"
    by (induction xs) auto
  then show ?thesis
    using Play by (simp add: play_predator_sound_def Let_def stop_cache split: option.splits)
next
  case Stop
  then show ?thesis by (simp add: stop_cache)
next
  case (Pause d)
  then show ?thesis by (simp add: advance_to_def Let_def)
qed

lemma run_keys: "map fst (sound_cache (run_calls calls s)) = map fst (sound_cache s)"
  unfolding run_calls_def by (induction calls arbitrary: s) (simp_all add: step_keys)

text \<open>
  When no sound is longer than the two seconds of the join, every thread under the
  handle ends within the join: after any calls and pauses at most one playback thread is
  alive, and right after a call that plays a cached sound the live thread plays that
  sound.
\<close>

theorem short_sounds_one_playback:
  assumes "short_sounds cache"
  shows "length (live_threads (run_calls calls (new_library cache an))) \<le> 1"
    and "n \<in> set (map fst cache) \<Longrightarrow>
         map thread_sound (live_threads
           (run_calls (calls @ [Play n vol]) (new_library cache an))) = [n]"
proof -
  let ?s = "run_calls calls (new_library cache an)"
  have one: "one_playback ?s"
    using assms by (intro run_one one_new)
  then show "length (live_threads ?s) \<le> 1"
    by (auto simp: one_playback_def split: list.splits)
  assume "n \<in> set (map fst cache)"
  then have "n \<in> set (map fst (sound_cache ?s))"
    by (simp add: run_keys new_library_def)
  then have "map_of (sound_cache ?s) n \<noteq> None"
    by (simp add: map_of_eq_None_iff)
  from play_one(2)[OF one this, of vol]
  show "map thread_sound (live_threads
      (run_calls (calls @ [Play n vol]) (new_library cache an))) = [n]"
    by (simp add: run_calls_def)
qed

end
